theory Spec2Isabelle
  imports Complex_Main "HOL-Library.Sublist" "HOL-Library.AList"
begin

section \<open>Python strings over the Latin-1 code points\<close>

text \<open>
  The scorers, the simulated lookup and the token guard are modelled on \<open>string\<close>: a
  list of characters with code points 0 to 255. On these code points the character classes
  of Python 3 are the ones below (\<open>str.lower\<close>, \<open>str.isspace\<close> and the \<open>re\<close> classes
  \<open>\s\<close> and \<open>\d\<close> of a \<open>str\<close> pattern). The normaliser \<open>clean_text\<close> is
  modelled on code points of any size, the language router on any character type. Scores are Python floats in the
  source; they are modelled as exact rationals, so binary rounding error is outside the
  model.
\<close>

definition char_lower :: "char \<Rightarrow> char" where
  \<comment> \<open>\<open>str.lower\<close> on one character: A-Z and the Latin-1 capitals move up by 32.\<close>
  "char_lower c =
     (let n = (of_char c :: nat)
      in if (65 \<le> n \<and> n \<le> 90) \<or> (192 \<le> n \<and> n \<le> 214) \<or> (216 \<le> n \<and> n \<le> 222)
         then char_of (n + 32) else c)"

definition str_lower :: "string \<Rightarrow> string" where
  "str_lower s = map char_lower s"

definition is_space :: "char \<Rightarrow> bool" where
  \<comment> \<open>\<open>\s\<close> and \<open>str.isspace\<close>: tab to carriage return, the four separators 28-31,
      space, NEL (133) and the no-break space (160).\<close>
  "is_space c =
     (let n = (of_char c :: nat)
      in (9 \<le> n \<and> n \<le> 13) \<or> (28 \<le> n \<and> n \<le> 32) \<or> n = 133 \<or> n = 160)"

definition is_digit :: "char \<Rightarrow> bool" where
  \<comment> \<open>\<open>\d\<close>: the decimal digits 0-9.\<close>
  "is_digit c = (let n = (of_char c :: nat) in 48 \<le> n \<and> n \<le> 57)"

fun str_contains :: "string \<Rightarrow> string \<Rightarrow> bool" where
  \<comment> \<open>\<open>sub in s\<close>\<close>
  "str_contains sub [] = (sub = [])"
| "str_contains sub (c # cs) = (prefix sub (c # cs) \<or> str_contains sub cs)"

definition any_in :: "string list \<Rightarrow> string \<Rightarrow> bool" where
  \<comment> \<open>\<open>any(k in s for k in ks)\<close>\<close>
  "any_in ks s = list_ex (\<lambda>k. str_contains k s) ks"

fun str_count :: "string \<Rightarrow> string \<Rightarrow> nat" where
  \<comment> \<open>\<open>s.count(sub)\<close>: occurrences that do not overlap, from the left.\<close>
  "str_count sub [] = (if sub = [] then 1 else 0)"
| "str_count sub (c # cs) =
     (if sub = [] then Suc (str_count sub cs)
      else if prefix sub (c # cs) then Suc (str_count sub (drop (length sub - 1) cs))
      else str_count sub cs)"

function str_split :: "string \<Rightarrow> string list" where
  \<comment> \<open>\<open>s.split()\<close>: the maximal runs of characters that are not whitespace.\<close>
  "str_split s =
     (case dropWhile is_space s of
        [] \<Rightarrow> []
      | c # cs \<Rightarrow> (c # takeWhile (\<lambda>d. \<not> is_space d) cs)
                  # str_split (dropWhile (\<lambda>d. \<not> is_space d) cs))"
  by pat_completeness auto
termination
proof (relation "measure length")
  fix s :: string and c cs
  assume "dropWhile is_space s = c # cs"
  then have "length cs < length s"
    using length_dropWhile_le [of is_space s] by simp
  moreover have "length (dropWhile (\<lambda>d. \<not> is_space d) cs) \<le> length cs"
    by (rule length_dropWhile_le)
  ultimately show "(dropWhile (\<lambda>d. \<not> is_space d) cs, s) \<in> measure length"
    by simp
qed simp

section \<open>Text normalisation\<close>

text \<open>
  \<open>clean_text\<close> is meant for text in every script, so here a Python \<open>str\<close> is the list
  of its code points, of any size. What \<open>str.lower\<close>, \<open>\w\<close> and \<open>\s\<close> do with a code
  point is read from the interpreter's Unicode character database, which is not part of the
  repository: it is the parameter \<open>u\<close>. Its rows are the full lower-case mapping of a code
  point (one to three code points), the test \<open>str.isalnum\<close> (\<open>\w\<close> is that or the
  underscore, 95), the test \<open>str.isspace\<close> (which is also \<open>\s\<close> and what \<open>strip\<close> removes),
  and the two properties Cased and Case_Ignorable that \<open>str.lower\<close> consults for the Greek
  capital sigma (931), which becomes the final sigma (962) or the small sigma (963).
\<close>

record ucd =
  lower_full :: "nat \<Rightarrow> nat list"
  alnum :: "nat \<Rightarrow> bool"
  space :: "nat \<Rightarrow> bool"
  cased :: "nat \<Rightarrow> bool"
  case_ignorable :: "nat \<Rightarrow> bool"

definition code_points :: "string \<Rightarrow> nat list" where
  "code_points s = map of_char s"

definition handle_capital_sigma :: "ucd \<Rightarrow> nat list \<Rightarrow> nat list \<Rightarrow> nat" where
  \<comment> \<open>\<open>preceding\<close> is the text in front of the sigma, nearest code point first; \<open>following\<close> is
      the text behind it. The sigma is final when a cased code point precedes it and none
      follows, case-ignorable code points skipped on both sides.\<close>
  "handle_capital_sigma u preceding following =
     (let final_sigma =
            (case dropWhile (case_ignorable u) preceding of [] \<Rightarrow> False | c # _ \<Rightarrow> cased u c);
          final_sigma =
            (if final_sigma
             then (case dropWhile (case_ignorable u) following of [] \<Rightarrow> True | c # _ \<Rightarrow> \<not> cased u c)
             else False)
      in if final_sigma then 962 else 963)"

fun lower_from :: "ucd \<Rightarrow> nat list \<Rightarrow> nat list \<Rightarrow> nat list" where
  "lower_from u preceding [] = []"
| "lower_from u preceding (c # cs) =
     (if c = 931 then [handle_capital_sigma u preceding cs] else lower_full u c)
     @ lower_from u (c # preceding) cs"

definition unicode_lower :: "ucd \<Rightarrow> nat list \<Rightarrow> nat list" where
  \<comment> \<open>\<open>s.lower()\<close>\<close>
  "unicode_lower u s = lower_from u [] s"

definition url_start :: "ucd \<Rightarrow> nat list \<Rightarrow> bool" where
  \<comment> \<open>The pattern \<open>https?://\S+|www\.\S+\<close> matches at the head of \<open>s\<close>.\<close>
  "url_start u s =
     (let followed = (\<lambda>n. case drop n s of [] \<Rightarrow> False | c # _ \<Rightarrow> \<not> space u c)
      in (prefix (code_points ''https://'') s \<and> followed 8)
         \<or> (prefix (code_points ''http://'') s \<and> followed 7)
         \<or> (prefix (code_points ''www.'') s \<and> followed 4))"

function remove_urls :: "ucd \<Rightarrow> nat list \<Rightarrow> nat list" where
  \<comment> \<open>\<open>re.sub(url_pattern, "", text)\<close>. The fixed part of the pattern has no whitespace
      and \<open>\S+\<close> is greedy, so a match is the whole run up to the next whitespace.\<close>
  "remove_urls u [] = []"
| "remove_urls u (c # cs) =
     (if url_start u (c # cs) then remove_urls u (dropWhile (\<lambda>d. \<not> space u d) cs)
      else c # remove_urls u cs)"
  by pat_completeness auto
termination
  by (relation "measure (\<lambda>(u, s). length s)") (auto simp: less_Suc_eq_le length_dropWhile_le)

function collapse_ws :: "ucd \<Rightarrow> nat list \<Rightarrow> nat list" where
  \<comment> \<open>\<open>re.sub(r"\s+", " ", text)\<close>; 32 is the space\<close>
  "collapse_ws u [] = []"
| "collapse_ws u (c # cs) =
     (if space u c then 32 # collapse_ws u (dropWhile (space u) cs)
      else c # collapse_ws u cs)"
  by pat_completeness auto
termination
  by (relation "measure (\<lambda>(u, s). length s)") (auto simp: less_Suc_eq_le length_dropWhile_le)

definition str_strip :: "ucd \<Rightarrow> nat list \<Rightarrow> nat list" where
  \<comment> \<open>\<open>s.strip()\<close>\<close>
  "str_strip u s = rev (dropWhile (space u) (rev (dropWhile (space u) s)))"

definition clean_text :: "ucd \<Rightarrow> nat list option \<Rightarrow> nat list" where
  \<comment> \<open>The argument is \<open>None\<close> for Python's \<open>None\<close>; \<open>not input_text\<close> holds of \<open>None\<close>
      and of the empty string. 95 is the underscore.\<close>
  "clean_text u input_text =
     (case input_text of
        None \<Rightarrow> []
      | Some t \<Rightarrow>
          if t = [] then []
          else
            (let text = unicode_lower u t;
                 text = remove_urls u text;
                 text = filter (\<lambda>c. (alnum u c \<or> c = 95) \<or> space u c) text;
                 text = map (\<lambda>c. if c = 95 then 32 else c) text;
                 text = str_strip u (collapse_ws u text)
             in text))"

section \<open>Language detection and translation\<close>

text \<open>
  \<open>process_language\<close> looks at code points beyond Latin-1, so it is written for any
  character type \<open>'c\<close> with its code-point function \<open>cp\<close> and its \<open>str.lower\<close>
  (for \<open>string\<close> these are \<open>of_char\<close> and \<open>str_lower\<close>). The two collaborators are
  parameters: \<open>detect\<close> is \<open>langdetect.detect\<close>, which may raise; \<open>translator\<close> is the
  module-level handle, \<open>None\<close> when googletrans is missing or its constructor failed, and
  otherwise the function \<open>\<lambda>text src dest. translator.translate(text, src, dest).text\<close>,
  which may raise. A raised exception is the value \<open>Inl e\<close>.
\<close>

datatype error = Exception string

definition try_except :: "error + 'a \<Rightarrow> (error \<Rightarrow> error + 'a) \<Rightarrow> error + 'a" where
  "try_except body handler = (case body of Inl e \<Rightarrow> handler e | Inr v \<Rightarrow> Inr v)"

definition marathi_clues :: "nat list list" where
  \<comment> \<open>The six clue words of the source, as code points.\<close>
  "marathi_clues =
     [[2310, 2361, 2375],
      [2344, 2366, 2361, 2368],
      [2354, 2379, 2325, 2344, 2366],
      [2350, 2381, 2361, 2339, 2332, 2375],
      [2350, 2354, 2366],
      [2340, 2369, 2350, 2381, 2361, 2366, 2354, 2366]]"

fun seq_contains :: "'a list \<Rightarrow> 'a list \<Rightarrow> bool" where
  \<comment> \<open>\<open>sub in s\<close> on code points\<close>
  "seq_contains sub [] = (sub = [])"
| "seq_contains sub (c # cs) = (prefix sub (c # cs) \<or> seq_contains sub cs)"

definition detect_language ::
  "('c \<Rightarrow> nat) \<Rightarrow> ('c list \<Rightarrow> 'c list) \<Rightarrow> ('c list \<Rightarrow> error + string) \<Rightarrow> 'c list
   \<Rightarrow> error + string" where
  \<comment> \<open>The first half of the outer \<open>try\<close> block: the value of \<open>detected_lang\<close> after it.
      The Devanagari block is U+0900 to U+097F.\<close>
  "detect_language cp lower detect text =
     (if text \<noteq> [] \<and> list_ex (\<lambda>c. 2304 \<le> cp c \<and> cp c \<le> 2431) text then
        (let low = lower text
         in if list_ex (\<lambda>clue. seq_contains clue (map cp low)) marathi_clues
            then Inr ''mr'' else Inr ''hi'')
      else try_except (detect text) (\<lambda>e. Inr ''unknown''))"

definition translate_step ::
  "('c list \<Rightarrow> string \<Rightarrow> string \<Rightarrow> error + 'c list) option \<Rightarrow> 'c list \<Rightarrow> string
   \<Rightarrow> error + 'c list" where
  \<comment> \<open>The second half of the outer \<open>try\<close> block: the value of \<open>analysis_text\<close> after it.\<close>
  "translate_step translator text detected_lang =
     (if detected_lang \<noteq> [] \<and> str_lower detected_lang \<noteq> ''en'' \<and> detected_lang \<noteq> ''unknown''
      then
        try_except
          (case translator of
             Some translate \<Rightarrow> translate text detected_lang ''en''
           | None \<Rightarrow> Inr text)
          (\<lambda>e. Inr text)
      else Inr text)"

definition process_language ::
  "('c \<Rightarrow> nat) \<Rightarrow> ('c list \<Rightarrow> 'c list) \<Rightarrow> ('c list \<Rightarrow> error + string)
   \<Rightarrow> ('c list \<Rightarrow> string \<Rightarrow> string \<Rightarrow> error + 'c list) option \<Rightarrow> 'c list
   \<Rightarrow> error + ('c list \<times> string)" where
  \<comment> \<open>The outer handler keeps \<open>detected_lang\<close> as it stands when the exception arrives:
      still \<open>unknown\<close> during detection, the detected code during translation.\<close>
  "process_language cp lower detect translator text =
     (case detect_language cp lower detect text of
        Inl e \<Rightarrow> Inr (text, ''unknown'')
      | Inr detected_lang \<Rightarrow>
          (case translate_step translator text detected_lang of
             Inl e \<Rightarrow> Inr (text, if detected_lang \<noteq> [] then detected_lang else ''unknown'')
           | Inr analysis_text \<Rightarrow> Inr (analysis_text, detected_lang)))"

section \<open>Token guard\<close>

fun findall_nums :: "string \<Rightarrow> string list" where
  \<comment> \<open>\<open>re.compile(r"\d{3,}").findall(s)\<close>: a run of fewer than three digits matches at
      none of its positions.\<close>
  "findall_nums [] = []"
| "findall_nums (c # cs) =
     (let run = takeWhile is_digit (c # cs)
      in if 3 \<le> length run then run # findall_nums (drop (length run - 1) cs)
         else findall_nums cs)"

fun str_replace1 :: "string \<Rightarrow> string \<Rightarrow> string \<Rightarrow> string" where
  \<comment> \<open>\<open>s.replace(old, new, 1)\<close>\<close>
  "str_replace1 old new [] = (if old = [] then new else [])"
| "str_replace1 old new (c # cs) =
     (if prefix old (c # cs) then new @ drop (length old) (c # cs)
      else c # str_replace1 old new cs)"

fun str_replace :: "string \<Rightarrow> string \<Rightarrow> string \<Rightarrow> string" where
  \<comment> \<open>\<open>s.replace(old, new)\<close>\<close>
  "str_replace old new [] = (if old = [] then new else [])"
| "str_replace old new (c # cs) =
     (if old = [] then new @ c # str_replace old new cs
      else if prefix old (c # cs) then new @ str_replace old new (drop (length old - 1) cs)
      else c # str_replace old new cs)"

definition digit_char :: "nat \<Rightarrow> char" where
  "digit_char d = char_of (48 + d)"

function str_nat :: "nat \<Rightarrow> string" where
  \<comment> \<open>the decimal numeral of an index, as an f-string prints it\<close>
  "str_nat n = (if n < 10 then [digit_char n] else str_nat (n div 10) @ [digit_char (n mod 10)])"
  by pat_completeness auto
termination
  by (relation "measure id") auto

definition num_key :: "nat \<Rightarrow> string" where
  "num_key i = ''__NUM'' @ str_nat i @ ''__''"

definition tk_key :: "nat \<Rightarrow> nat \<Rightarrow> string" where
  "tk_key i j = ''__TK'' @ str_nat i @ ''_'' @ str_nat j @ ''__''"

definition critical_tokens :: "string list" where
  "critical_tokens =
     [''indefinitely'', ''closed'', ''government'', ''lockdown'', ''schools'', ''withdraw'',
      ''withdraw money'', ''urgent'', ''urgently'', ''emergency'']"

definition sorted_tokens :: "string list" where
  \<comment> \<open>\<open>sorted(critical_tokens, key=len, reverse=True)\<close>: stable, so tokens of one length
      keep their order.\<close>
  "sorted_tokens = sort_key (\<lambda>tok. - int (length tok)) critical_tokens"

definition ci_prefix :: "string \<Rightarrow> string \<Rightarrow> bool" where
  \<comment> \<open>the escaped literal \<open>tok\<close> matches at the head of \<open>s\<close> under \<open>re.IGNORECASE\<close>\<close>
  "ci_prefix tok s =
     (length tok \<le> length s \<and> str_lower (take (length tok) s) = str_lower tok)"

fun finditer :: "string \<Rightarrow> nat \<Rightarrow> string \<Rightarrow> (nat \<times> nat) list" where
  \<comment> \<open>\<open>[(m.start(), m.end()) for m in prog.finditer(s)]\<close>, with \<open>pos\<close> the offset of the
      rest of the text still to scan\<close>
  "finditer tok pos [] = (if tok = [] then [(pos, pos)] else [])"
| "finditer tok pos (c # cs) =
     (if tok = [] then (pos, pos) # finditer tok (Suc pos) cs
      else if ci_prefix tok (c # cs)
        then (pos, pos + length tok) # finditer tok (pos + length tok) (drop (length tok - 1) cs)
      else finditer tok (Suc pos) cs)"

type_synonym placeholder_map = "(string \<times> string) list"

fun guard_nums :: "nat \<Rightarrow> string list \<Rightarrow> placeholder_map \<times> string \<Rightarrow> placeholder_map \<times> string"
  where
  \<comment> \<open>\<open>for i, n in enumerate(nums)\<close>\<close>
  "guard_nums i [] st = st"
| "guard_nums i (n # ns) (placeholder_map, tmp) =
     (let key = num_key i
      in guard_nums (Suc i) ns (AList.update key n placeholder_map, str_replace1 n key tmp))"

fun guard_matches ::
  "nat \<Rightarrow> nat \<Rightarrow> (nat \<times> nat) list \<Rightarrow> placeholder_map \<times> string \<Rightarrow> placeholder_map \<times> string"
  where
  \<comment> \<open>\<open>for j, m in enumerate(matches)\<close>: the offsets are those found before the loop\<close>
  "guard_matches i j [] st = st"
| "guard_matches i j ((m_start, m_end) # matches) (placeholder_map, tmp) =
     (let key = tk_key i j
      in guard_matches i (Suc j) matches
           (AList.update key (take (m_end - m_start) (drop m_start tmp)) placeholder_map,
            take m_start tmp @ key @ drop m_end tmp))"

fun guard_tokens ::
  "nat \<Rightarrow> string list \<Rightarrow> placeholder_map \<times> string \<Rightarrow> placeholder_map \<times> string" where
  \<comment> \<open>\<open>for i, tok in enumerate(sorted(...))\<close>\<close>
  "guard_tokens i [] st = st"
| "guard_tokens i (tok # toks) (placeholder_map, tmp) =
     guard_tokens (Suc i) toks
       (guard_matches i 0 (finditer tok 0 tmp) (placeholder_map, tmp))"

definition guard_phase :: "string \<Rightarrow> placeholder_map \<times> string" where
  \<comment> \<open>\<open>preprocessing_and_translation\<close> up to the call of \<open>process_language\<close>\<close>
  "guard_phase raw_input =
     guard_tokens 0 sorted_tokens (guard_nums 0 (findall_nums raw_input) ([], raw_input))"

definition restore_phase :: "placeholder_map \<Rightarrow> string \<Rightarrow> string" where
  \<comment> \<open>\<open>for key, val in placeholder_map.items(): text = text.replace(key, val)\<close>\<close>
  "restore_phase placeholder_map translated_text =
     foldl (\<lambda>text (key, val). str_replace key val text) translated_text placeholder_map"

definition preprocessing_and_translation ::
  "ucd \<Rightarrow> (string \<Rightarrow> error + string)
   \<Rightarrow> (string \<Rightarrow> string \<Rightarrow> string \<Rightarrow> error + string) option
   \<Rightarrow> string \<Rightarrow> nat list \<times> string" where
  \<comment> \<open>The guarded and the translated text are Latin-1 strings here; the final
      \<open>clean_text\<close> works on their code points.\<close>
  "preprocessing_and_translation u detect translator raw_input =
     (if raw_input = [] then ([], ''unknown'')
      else
        (let (placeholder_map, tmp) = guard_phase raw_input;
             (translated_text, detected_lang) =
               (case process_language of_char str_lower detect translator tmp of
                  Inl e \<Rightarrow> (tmp, ''unknown'')
                | Inr r \<Rightarrow> r);
             translated_text = restore_phase placeholder_map translated_text;
             processed = clean_text u (Some (code_points translated_text))
         in (processed, detected_lang)))"

section \<open>Heuristic scorers\<close>

definition default_suspicious_terms :: "string list" where
  "default_suspicious_terms =
     [''false'', ''hoax'', ''conspiracy'', ''hidden'', ''coverup'', ''fake'', ''exposed'',
      ''lying'', ''withdrawn'', ''bank'', ''account'', ''whatsapp'', ''scam'', ''modi'',
      ''important'', ''election'', ''protest'', ''results'', ''tomorrow'', ''immediately'',
      ''fraud'', ''vote'', ''scandal'', ''corrupt'', ''who'', ''cure'', ''virus'', ''pandemic'',
      ''confirmed'', ''officially'', ''health'']"

definition MisinformationDetector :: "string list option \<Rightarrow> string list" where
  \<comment> \<open>The constructor: the object is its set of terms, kept as a list without duplicates
      (the count below is a sum, so the order of the set does not matter).\<close>
  "MisinformationDetector suspicious_terms =
     remdups (case suspicious_terms of None \<Rightarrow> default_suspicious_terms | Some ts \<Rightarrow> ts)"

definition sensational_markers :: "string list" where
  "sensational_markers =
     [''urgent'', ''alert'', ''shocking'', ''you won't believe'', ''just confirmed'',
      ''has just confirmed'', ''breaking'', ''important news'', ''important'']"

definition financial_markers :: "string list" where
  "financial_markers =
     [''withdrawn'', ''bank'', ''account'', ''5000'', ''rupees'', ''whatsapp'', ''transfer'']"

definition score :: "string list \<Rightarrow> string \<Rightarrow> rat" where
  \<comment> \<open>\<open>MisinformationDetector.score(self, text)\<close>\<close>
  "score self text =
     (if text = [] then 0
      else
        (let tokens = str_split text;
             lower = str_lower text;
             count = sum_list (map (\<lambda>term. if str_contains term lower
                                            then str_count term lower else 0) self);
             boost = 0;
             boost = (if any_in sensational_markers lower then boost + 45 / 100 else boost);
             boost = (if any_in financial_markers lower then boost + 35 / 100 else boost);
             boost = (if (str_contains ''who'' lower \<or> str_contains ''government'' lower
                          \<or> str_contains ''modi'' lower)
                         \<and> any_in sensational_markers lower
                      then boost + 2 / 10 else boost);
             token_count = max 1 (length tokens);
             base = of_nat count / of_nat token_count;
             score = base + boost
         in max 0 (min 1 score)))"

definition sensational_terms :: "string list" where
  "sensational_terms =
     [''shocking'', ''urgent'', ''breaking'', ''unbelievable'', ''horrific'', ''shocker'',
      ''alert'', ''exclusive'', ''must read'', ''you won't believe'', ''hidden'', ''hiding'',
      ''important'', ''important news'', ''withdrawn'', ''bank'', ''whatsapp'', ''modi'',
      ''protest'', ''immediately'', ''fake news alert'', ''crisis'', ''emergency'']"

definition detect_sensationalism :: "string \<Rightarrow> rat" where
  "detect_sensationalism text =
     (if text = [] then 0
      else
        (let text_lower = str_lower text;
             score = length (filter (\<lambda>term. str_contains term text_lower) sensational_terms)
         in min 1 (of_nat score / of_nat (length sensational_terms))))"

definition generate_preliminary_prediction :: "rat \<Rightarrow> rat \<Rightarrow> string" where
  "generate_preliminary_prediction misinfo_score sensationalism_score =
     (if misinfo_score > 6 / 10 \<and> sensationalism_score > 3 / 10 then ''Fake''
      else if misinfo_score < 3 / 10 \<and> sensationalism_score < 3 / 10 then ''Real''
      else ''Unclear'')"

definition crisis_keywords :: "string list" where
  "crisis_keywords =
     [''schools closed'', ''lockdown'', ''government mandate'', ''withdraw money'', ''urgently'',
      ''emergency'', ''closed indefinitely'', ''who'', ''pandemic'', ''virus cure'', ''virus'',
      ''health'', ''election results fake'', ''protest immediately'', ''voting fraud'',
      ''who cure'', ''pandemic virus'']"

definition analyze_text :: "string \<Rightarrow> rat \<times> rat \<times> string" where
  "analyze_text processed_text =
     (let md = MisinformationDetector None;
          misinfo_score = score md processed_text;
          sensationalism_score = detect_sensationalism processed_text;
          lower = str_lower processed_text;
          crisis = any_in crisis_keywords lower;
          misinfo_score = (if crisis \<and> misinfo_score < 7 / 10
                           then min 1 (misinfo_score + 5 / 10) else misinfo_score);
          sensationalism_score = (if crisis \<and> sensationalism_score < 2 / 10
                                  then min 1 (sensationalism_score + 2 / 10)
                                  else sensationalism_score);
          preliminary_prediction =
            (if misinfo_score > 8 / 10 \<or> sensationalism_score > 8 / 10 then ''Fake''
             else if misinfo_score < 2 / 10 \<and> sensationalism_score < 2 / 10 then ''Real''
             else ''Unclear'')
      in (misinfo_score, sensationalism_score, preliminary_prediction))"

section \<open>Fact-check results and the confidence score\<close>

text \<open>
  A fact-check result is a Python dict with string keys and values, kept as an association
  list in insertion order. \<open>dict_get r k d\<close> is \<open>r.get(k, d)\<close>.
\<close>

type_synonym result = "(string \<times> string) list"

definition dict_get :: "result \<Rightarrow> string \<Rightarrow> string \<Rightarrow> string" where
  "dict_get r k d = (case map_of r k of None \<Rightarrow> d | Some v \<Rightarrow> v)"

definition py_round :: "rat \<Rightarrow> int" where
  \<comment> \<open>\<open>round(x)\<close> with one argument: to the nearest integer, a tie to the even one.\<close>
  "py_round x =
     (let f = \<lfloor>x\<rfloor>; d = x - of_int f
      in if d < 1 / 2 then f else if 1 / 2 < d then f + 1
         else if even f then f else f + 1)"

definition threshold_verdict :: "int \<Rightarrow> string" where
  \<comment> \<open>The verdict mapping written out twice in \<open>calculate_confidence_score\<close>.\<close>
  "threshold_verdict final_score =
     (if final_score \<ge> 66 then ''Fake''
      else if final_score \<le> 33 then ''Real''
      else ''Unclear'')"

definition verdict_lower :: "result \<Rightarrow> string" where
  \<comment> \<open>\<open>str(r.get("verdict", "")).lower()\<close>\<close>
  "verdict_lower r = str_lower (dict_get r ''verdict'' '''')"

definition has_false :: "result list \<Rightarrow> bool" where
  "has_false api_results = list_ex (\<lambda>v. v = ''false'') (map verdict_lower api_results)"

definition has_true :: "result list \<Rightarrow> bool" where
  "has_true api_results = list_ex (\<lambda>v. v = ''true'') (map verdict_lower api_results)"

definition has_mixed :: "result list \<Rightarrow> bool" where
  "has_mixed api_results = list_ex (\<lambda>v. v = ''mixed'') (map verdict_lower api_results)"

definition weighted_fallback :: "rat \<Rightarrow> result list \<Rightarrow> int \<times> string" where
  \<comment> \<open>The last section of \<open>calculate_confidence_score\<close> (after the priority rules); it is
      only reached with a non-empty list.\<close>
  "weighted_fallback misinfo_score api_results =
     (let internal = misinfo_score * 50;
          total = length api_results;
          false_count = length (filter (\<lambda>r. verdict_lower r = ''false'') api_results);
          external = (of_nat false_count / of_nat total) * 50;
          final_score = max 0 (min 100 (py_round (internal + external)))
      in (final_score, threshold_verdict final_score))"

definition calculate_confidence_score :: "rat \<Rightarrow> result list \<Rightarrow> int \<times> string" where
  "calculate_confidence_score misinfo_score api_results =
     (let internal = misinfo_score * 50
      in if api_results = [] then
           (if misinfo_score > 7 / 10 then
              (let span = max (1 / 10000) (1 - 7 / 10);
                   final_score =
                     min 80 (max 60 (py_round (60 + ((misinfo_score - 7 / 10) / span) * 20)))
               in (final_score, ''Fake''))
            else
              (let external = 25;
                   final_score = max 0 (min 100 (py_round (internal + external)))
               in (final_score, threshold_verdict final_score)))
         else if has_false api_results \<and> \<not> has_true api_results then (95, ''Fake'')
         else if has_true api_results \<and> \<not> has_false api_results then (95, ''Real'')
         else if has_mixed api_results \<and> \<not> (has_false api_results \<or> has_true api_results)
           then (60, ''Unclear'')
         else if has_false api_results \<and> has_true api_results then (60, ''Unclear'')
         else weighted_fallback misinfo_score api_results)"

section \<open>The simulated fact-check lookup\<close>

definition fc_generic :: result where
  "fc_generic =
     [(''verdict'', ''False''),
      (''url'', ''https://factcheck.google.com/claim-false''),
      (''title'', ''Google Fact Check: Claim found to be false'')]"

definition fc_who :: result where
  "fc_who =
     [(''verdict'', ''False''),
      (''url'', ''https://www.who.int/news/factcheck-cure-hoax''),
      (''title'', ''WHO Fact-check: No evidence for specific virus cure (Health Hoax)'')]"

definition fc_pib :: result where
  "fc_pib =
     [(''verdict'', ''False''),
      (''url'', ''https://pib.gov.in/factcheck-govt-scheme-hoax''),
      (''title'', ''PIB Fact Check: Government has not announced this scheme.'')]"

definition fc_vaccine :: result where
  "fc_vaccine =
     [(''verdict'', ''Mixed''),
      (''url'', ''https://example.com/factcheck-vaccine''),
      (''title'', ''Fact-check: Mixed evidence on vaccine claim'')]"

definition query_google_fact_check :: "string \<Rightarrow> result list" where
  "query_google_fact_check claim_text =
     (if claim_text = [] then []
      else
        (let lower = str_lower claim_text
         in (if any_in [''fake'', ''hoax'', ''conspiracy'', ''coverup'', ''lying'', ''exposed''] lower
             then [fc_generic] else [])
          @ (if str_contains ''who'' lower
                \<and> any_in [''hiding'', ''hidden'', ''cure'', ''virus'', ''pandemic'', ''health'',
                           ''confirmed''] lower
             then [fc_who] else [])
          @ (if any_in [''government'', ''modi'', ''finance'', ''subsidy'', ''bank account'',
                        ''pension''] lower
             then [fc_pib] else [])
          @ (if any_in [''vaccine'', ''vaccination''] lower then [fc_vaccine] else [])))"

section \<open>The shape of normalised text, and a sample of the character database\<close>

fun single_spaced :: "(nat \<Rightarrow> bool) \<Rightarrow> nat list \<Rightarrow> bool" where
  \<comment> \<open>every whitespace code point is the space 32, and no whitespace follows it\<close>
  "single_spaced sp [] = True"
| "single_spaced sp [c] = (if sp c then c = 32 else True)"
| "single_spaced sp (c # d # cs) =
     ((if sp c then c = 32 \<and> \<not> sp d else True) \<and> single_spaced sp (d # cs))"

definition sample_ucd :: ucd where
  \<comment> \<open>The rows of the database of CPython 3.11 for U+0000 to U+00FF, U+0130 (the capital
      I with dot, whose lower case is two code points), the combining diacritics U+0300 to
      U+036F, the Greek letters U+0391 to U+03C9 and the Devanagari block U+0900 to U+097F,
      and all its whitespace. Other code points are given no case and no class here.\<close>
  "sample_ucd =
     \<lparr>lower_full = (\<lambda>n.
        if (65 \<le> n \<and> n \<le> 90) \<or> (192 \<le> n \<and> n \<le> 214) \<or> (216 \<le> n \<and> n \<le> 222)
           \<or> (913 \<le> n \<and> n \<le> 929) \<or> (931 \<le> n \<and> n \<le> 939)
        then [n + 32]
        else if n = 304 then [105, 775] else [n]),
      alnum = (\<lambda>n.
        (48 \<le> n \<and> n \<le> 57) \<or> (65 \<le> n \<and> n \<le> 90) \<or> (97 \<le> n \<and> n \<le> 122)
        \<or> n = 170 \<or> n = 178 \<or> n = 179 \<or> n = 181 \<or> n = 185 \<or> n = 186
        \<or> (188 \<le> n \<and> n \<le> 190) \<or> (192 \<le> n \<and> n \<le> 214) \<or> (216 \<le> n \<and> n \<le> 246)
        \<or> (248 \<le> n \<and> n \<le> 255) \<or> n = 304 \<or> (913 \<le> n \<and> n \<le> 929)
        \<or> (931 \<le> n \<and> n \<le> 969) \<or> (2308 \<le> n \<and> n \<le> 2361) \<or> n = 2365 \<or> n = 2384
        \<or> (2392 \<le> n \<and> n \<le> 2401) \<or> (2406 \<le> n \<and> n \<le> 2415)
        \<or> (2417 \<le> n \<and> n \<le> 2431)),
      space = (\<lambda>n.
        (9 \<le> n \<and> n \<le> 13) \<or> (28 \<le> n \<and> n \<le> 32) \<or> n = 133 \<or> n = 160 \<or> n = 5760
        \<or> (8192 \<le> n \<and> n \<le> 8202) \<or> n = 8232 \<or> n = 8233 \<or> n = 8239 \<or> n = 8287
        \<or> n = 12288),
      cased = (\<lambda>n.
        (65 \<le> n \<and> n \<le> 90) \<or> (97 \<le> n \<and> n \<le> 122) \<or> n = 170 \<or> n = 181 \<or> n = 186
        \<or> (192 \<le> n \<and> n \<le> 214) \<or> (216 \<le> n \<and> n \<le> 246) \<or> (248 \<le> n \<and> n \<le> 255)
        \<or> n = 304 \<or> (913 \<le> n \<and> n \<le> 929) \<or> (931 \<le> n \<and> n \<le> 969)),
      case_ignorable = (\<lambda>n.
        n = 39 \<or> n = 46 \<or> n = 58 \<or> n = 94 \<or> n = 96 \<or> n = 168 \<or> n = 173 \<or> n = 175
        \<or> n = 180 \<or> n = 183 \<or> n = 184 \<or> (768 \<le> n \<and> n \<le> 879)
        \<or> (2304 \<le> n \<and> n \<le> 2306) \<or> n = 2362 \<or> n = 2364 \<or> (2369 \<le> n \<and> n \<le> 2376)
        \<or> n = 2381 \<or> (2385 \<le> n \<and> n \<le> 2391) \<or> n = 2402 \<or> n = 2403 \<or> n = 2417)\<rparr>"

definition sample_text :: "nat list" where
  \<comment> \<open>a capital I with dot, a word ending in a capital sigma, a URL, underscores, and the
      Marathi word of \<open>marathi_clues\<close> with its combining vowel sign 2375\<close>
  "sample_text =
     [304, 83, 32, 927, 931, 33, 32] @ code_points ''www.x.in/a  A_b_ '' @ [2310, 2361, 2375]"

section \<open>Facts about the confidence score and the simulated lookup\<close>

lemma has_false_iff: "has_false rs \<longleftrightarrow> (\<exists>r\<in>set rs. verdict_lower r = ''false'')"
  unfolding has_false_def list_ex_iff by force

lemma has_true_iff: "has_true rs \<longleftrightarrow> (\<exists>r\<in>set rs. verdict_lower r = ''true'')"
  unfolding has_true_def list_ex_iff by force

lemma str_lower_False: "str_lower ''False'' = ''false''"
  by code_simp

lemma str_lower_Mixed: "str_lower ''Mixed'' = ''mixed''"
  by code_simp

lemma threshold_verdict_cases:
  "threshold_verdict c = ''Fake'' \<or> threshold_verdict c = ''Real''
   \<or> threshold_verdict c = ''Unclear''"
  by (simp add: threshold_verdict_def)

lemma threshold_verdict_Real: "threshold_verdict c = ''Real'' \<Longrightarrow> c \<le> 33"
  by (simp add: threshold_verdict_def split: if_splits)

lemma confidence_range:
  "0 \<le> fst (calculate_confidence_score m rs) \<and> fst (calculate_confidence_score m rs) \<le> 100"
  unfolding calculate_confidence_score_def weighted_fallback_def Let_def
  by (auto simp: min_def max_def)

lemma confidence_verdict:
  "snd (calculate_confidence_score m rs) = ''Fake''
   \<or> snd (calculate_confidence_score m rs) = ''Real''
   \<or> snd (calculate_confidence_score m rs) = ''Unclear''"
  unfolding calculate_confidence_score_def weighted_fallback_def Let_def
  using threshold_verdict_cases by (simp split: if_splits)

lemma confidence_not_95_Real:
  "\<not> has_true rs \<Longrightarrow> calculate_confidence_score m rs \<noteq> (95, ''Real'')"
  unfolding calculate_confidence_score_def weighted_fallback_def Let_def
  by (auto dest!: threshold_verdict_Real simp: min_def max_def split: if_splits)

lemma query_results:
  "set (query_google_fact_check t) \<subseteq> {fc_generic, fc_who, fc_pib, fc_vaccine}"
  by (auto simp: query_google_fact_check_def Let_def)

lemma catalog_verdict_lower:
  "verdict_lower fc_generic = ''false''" "verdict_lower fc_who = ''false''"
  "verdict_lower fc_pib = ''false''" "verdict_lower fc_vaccine = ''mixed''"
  by code_simp+

lemma catalog_verdict:
  "dict_get fc_generic ''verdict'' '''' = ''False''" "dict_get fc_who ''verdict'' '''' = ''False''"
  "dict_get fc_pib ''verdict'' '''' = ''False''" "dict_get fc_vaccine ''verdict'' '''' = ''Mixed''"
  by code_simp+

lemma query_no_true: "\<not> has_true (query_google_fact_check t)"
  using query_results [of t] by (auto simp: has_true_iff catalog_verdict_lower)

text \<open>
  Claim C1, as the specification states it: a result list with a False and a Mixed verdict
  and no True verdict is scored by the weighted fallback. The code does otherwise: its first
  priority rule, \<open>has_false and not has_true\<close>, fires whether or not a Mixed result is
  present. For the claim containing "fake" and "vaccine" the lookup returns a False and a
  Mixed result, the score is (95, Fake), and the weighted fallback would have given
  (25, Real).
\<close>

theorem false_and_mixed_not_weighted:
  "map (\<lambda>r. dict_get r ''verdict'' '''') (query_google_fact_check ''fake vaccine'')
     = [''False'', ''Mixed'']
   \<and> calculate_confidence_score 0 (query_google_fact_check ''fake vaccine'') = (95, ''Fake'')
   \<and> weighted_fallback 0 (query_google_fact_check ''fake vaccine'') = (25, ''Real'')"
  by code_simp

text \<open>
  Claim C1, amended: for every misinformation score and every result list with at least one
  verdict "False", at least one verdict "Mixed" and no verdict that reads "true" once
  lowercased, \<open>calculate_confidence_score\<close> takes the False-priority branch and returns
  (95, Fake); the guard of the True-and-False contradiction branch is false, and the weighted
  fallback is not reached.
\<close>

theorem false_and_mixed_is_fake:
  assumes "\<exists>r\<in>set api_results. dict_get r ''verdict'' '''' = ''False''"
    and "\<exists>r\<in>set api_results. dict_get r ''verdict'' '''' = ''Mixed''"
    and "\<forall>r\<in>set api_results. verdict_lower r \<noteq> ''true''"
  shows "calculate_confidence_score misinfo_score api_results = (95, ''Fake'')
         \<and> api_results \<noteq> []
         \<and> has_false api_results \<and> \<not> has_true api_results
         \<and> \<not> (has_false api_results \<and> has_true api_results)"
proof -
  from assms(1) have f: "has_false api_results"
    by (force simp: has_false_iff verdict_lower_def str_lower_False)
  from assms(3) have t: "\<not> has_true api_results"
    by (simp add: has_true_iff)
  from assms(1) have "api_results \<noteq> []"
    by auto
  with f t show ?thesis
    by (simp add: calculate_confidence_score_def)
qed

theorem false_and_mixed_is_fake_witness:
  "calculate_confidence_score (1 / 2) [fc_generic, fc_vaccine] = (95, ''Fake'')
   \<and> has_false [fc_generic, fc_vaccine] \<and> \<not> has_true [fc_generic, fc_vaccine]"
proof -
  have 1: "\<exists>r\<in>set [fc_generic, fc_vaccine]. dict_get r ''verdict'' '''' = ''False''"
    by (simp add: catalog_verdict)
  have 2: "\<exists>r\<in>set [fc_generic, fc_vaccine]. dict_get r ''verdict'' '''' = ''Mixed''"
    by (simp add: catalog_verdict)
  have 3: "\<forall>r\<in>set [fc_generic, fc_vaccine]. verdict_lower r \<noteq> ''true''"
    by (simp add: catalog_verdict_lower)
  from false_and_mixed_is_fake [OF 1 2 3, of "1 / 2"] show ?thesis
    by simp
qed

text \<open>
  Claim C8: \<open>calculate_confidence_score\<close> is a function of its two arguments alone (the
  source reads no other state), it returns for every score in [0,1] and every result list,
  the confidence is an integer between 0 and 100 and the verdict is one of "Fake", "Real",
  "Unclear".
\<close>

theorem calculate_confidence_score_total:
  assumes "0 \<le> misinfo_score" and "misinfo_score \<le> 1"
  shows "(\<forall>m' rs'. m' = misinfo_score \<and> rs' = api_results \<longrightarrow>
            calculate_confidence_score m' rs'
              = calculate_confidence_score misinfo_score api_results)
         \<and> (\<exists>c v. calculate_confidence_score misinfo_score api_results = (c, v)
                \<and> 0 \<le> c \<and> c \<le> 100
                \<and> (v = ''Fake'' \<or> v = ''Real'' \<or> v = ''Unclear''))"
proof -
  obtain c v where cv: "calculate_confidence_score misinfo_score api_results = (c, v)"
    by (cases "calculate_confidence_score misinfo_score api_results")
  from cv confidence_range [of misinfo_score api_results] have "0 \<le> c \<and> c \<le> 100"
    by simp
  moreover from cv confidence_verdict [of misinfo_score api_results]
  have "v = ''Fake'' \<or> v = ''Real'' \<or> v = ''Unclear''"
    by simp
  ultimately show ?thesis
    using cv by simp
qed

theorem calculate_confidence_score_total_witness:
  "(0::rat) \<le> 1 / 2 \<and> (1 / 2 :: rat) \<le> 1
   \<and> (\<exists>c v. calculate_confidence_score (1 / 2) [fc_vaccine] = (c, v)
          \<and> 0 \<le> c \<and> c \<le> 100 \<and> (v = ''Fake'' \<or> v = ''Real'' \<or> v = ''Unclear''))"
proof -
  have 1: "(0::rat) \<le> 1 / 2" and 2: "(1 / 2 :: rat) \<le> 1"
    by simp_all
  note t = calculate_confidence_score_total [OF 1 2, of "[fc_vaccine]", THEN conjunct2]
  from 1 2 t show ?thesis
    by (intro conjI)
qed

lemma clean_text_empty: "clean_text u (Some []) = []"
  by (simp add: clean_text_def)

lemma analyze_text_empty: "analyze_text '''' = (0, 0, ''Real'')"
  by code_simp

lemma query_empty: "query_google_fact_check '''' = []"
  by (simp add: query_google_fact_check_def)

lemma confidence_zero_no_results: "calculate_confidence_score 0 [] = (25, ''Real'')"
  by code_simp

text \<open>
  Claim C9: on the empty string \<open>clean_text\<close> returns the empty string (whatever the
  character database), \<open>analyze_text\<close>
  returns the scores 0 and 0 with the preliminary verdict "Real", the lookup returns no
  result, and the confidence score of 0 with no results is 25 with the verdict "Real",
  not "Unclear".
\<close>

theorem empty_input_end_to_end:
  "clean_text u (Some []) = []
   \<and> analyze_text '''' = (0, 0, ''Real'')
   \<and> query_google_fact_check '''' = []
   \<and> calculate_confidence_score (fst (analyze_text '''')) (query_google_fact_check '''')
       = (25, ''Real'')
   \<and> calculate_confidence_score 0 [] = (25, ''Real'')
   \<and> snd (calculate_confidence_score 0 []) \<noteq> ''Unclear''"
  by (simp add: clean_text_empty analyze_text_empty query_empty confidence_zero_no_results)

text \<open>
  Claim C10: every result of \<open>query_google_fact_check\<close> has the verdict "False" or "Mixed"
  and never "True"; there are at most four results, in the order of the four rules; so on
  a list the lookup produced, the guards of the True-only branch and of the True-and-False
  contradiction branch of \<open>calculate_confidence_score\<close> are false, and (95, Real) is
  never returned.
\<close>

theorem simulator_never_true:
  "list_all (\<lambda>r. dict_get r ''verdict'' '''' = ''False'' \<or> dict_get r ''verdict'' '''' = ''Mixed'')
     (query_google_fact_check t)
   \<and> list_all (\<lambda>r. dict_get r ''verdict'' '''' \<noteq> ''True'') (query_google_fact_check t)
   \<and> length (query_google_fact_check t) \<le> 4
   \<and> subseq (query_google_fact_check t) [fc_generic, fc_who, fc_pib, fc_vaccine]
   \<and> \<not> (has_true (query_google_fact_check t) \<and> \<not> has_false (query_google_fact_check t))
   \<and> \<not> (has_false (query_google_fact_check t) \<and> has_true (query_google_fact_check t))
   \<and> calculate_confidence_score m (query_google_fact_check t) \<noteq> (95, ''Real'')"
proof -
  have a: "list_all (\<lambda>r. dict_get r ''verdict'' '''' = ''False''
                        \<or> dict_get r ''verdict'' '''' = ''Mixed'') (query_google_fact_check t)"
    using query_results [of t] by (auto simp: list_all_iff catalog_verdict)
  have a': "list_all (\<lambda>r. dict_get r ''verdict'' '''' \<noteq> ''True'') (query_google_fact_check t)"
    using query_results [of t] by (auto simp: list_all_iff catalog_verdict)
  have b: "length (query_google_fact_check t) \<le> 4"
    by (simp add: query_google_fact_check_def Let_def)
  have c: "subseq (query_google_fact_check t) [fc_generic, fc_who, fc_pib, fc_vaccine]"
    by (simp add: query_google_fact_check_def Let_def)
  note d = query_no_true [of t]
  from a a' b c d confidence_not_95_Real [OF d] show ?thesis
    by simp
qed

theorem simulator_never_true_witness:
  "query_google_fact_check ''the who is hiding a vaccine'' = [fc_who, fc_vaccine]
   \<and> calculate_confidence_score 0 (query_google_fact_check ''the who is hiding a vaccine'')
       \<noteq> (95, ''Real'')"
proof -
  have "query_google_fact_check ''the who is hiding a vaccine'' = [fc_who, fc_vaccine]"
    by code_simp
  with simulator_never_true [of "''the who is hiding a vaccine''" 0] show ?thesis
    by simp
qed

section \<open>Facts about the language router\<close>

lemma try_except_Inr: "\<exists>v. try_except body (\<lambda>e. Inr (h e)) = Inr v"
  by (cases body) (simp_all add: try_except_def)

lemma detect_language_returns: "\<exists>lang. detect_language cp lower detect text = Inr lang"
  using try_except_Inr [of "detect text" "\<lambda>e. ''unknown''"]
  by (simp add: detect_language_def Let_def)

lemma translate_step_returns: "\<exists>a. translate_step translator text lang = Inr a"
  using try_except_Inr [of _ "\<lambda>e. text"]
  by (simp add: translate_step_def)

text \<open>
  Claim C4: \<open>process_language\<close> returns a pair for every text, whatever the two
  collaborators do, and never raises. When the detector is called and raises, the result is
  the input text with the code "unknown". When the translator is absent, or is called and
  raises, the result is the input text with the language code that detection produced.
\<close>

theorem process_language_total:
  "(\<exists>analysis_text detected_lang.
      process_language cp lower detect translator text = Inr (analysis_text, detected_lang))
   \<and> (\<exists>lang. detect_language cp lower detect text = Inr lang)
   \<and> (\<not> (text \<noteq> [] \<and> list_ex (\<lambda>c. 2304 \<le> cp c \<and> cp c \<le> 2431) text)
        \<and> (\<exists>e. detect text = Inl e)
      \<longrightarrow> process_language cp lower detect translator text = Inr (text, ''unknown''))
   \<and> (translator = None
      \<longrightarrow> (\<exists>lang. detect_language cp lower detect text = Inr lang
             \<and> process_language cp lower detect translator text = Inr (text, lang)))
   \<and> (\<forall>translate lang e.
         translator = Some translate \<and> detect_language cp lower detect text = Inr lang
         \<and> translate text lang ''en'' = Inl e
       \<longrightarrow> process_language cp lower detect translator text = Inr (text, lang))"
proof (intro conjI allI impI)
  obtain lang where l: "detect_language cp lower detect text = Inr lang"
    using detect_language_returns by blast
  obtain a where a: "translate_step translator text lang = Inr a"
    using translate_step_returns by blast
  from l a show "\<exists>analysis_text detected_lang.
      process_language cp lower detect translator text = Inr (analysis_text, detected_lang)"
    by (simp add: process_language_def)
  show "\<exists>lang. detect_language cp lower detect text = Inr lang"
    by (rule detect_language_returns)
next
  assume "\<not> (text \<noteq> [] \<and> list_ex (\<lambda>c. 2304 \<le> cp c \<and> cp c \<le> 2431) text)
        \<and> (\<exists>e. detect text = Inl e)"
  then have "detect_language cp lower detect text = Inr ''unknown''"
    by (auto simp: detect_language_def try_except_def)
  then show "process_language cp lower detect translator text = Inr (text, ''unknown'')"
    by (simp add: process_language_def translate_step_def)
next
  assume n: "translator = None"
  obtain lang where l: "detect_language cp lower detect text = Inr lang"
    using detect_language_returns by blast
  from n have "translate_step translator text lang = Inr text"
    by (simp add: translate_step_def try_except_def)
  with l show "\<exists>lang. detect_language cp lower detect text = Inr lang
             \<and> process_language cp lower detect translator text = Inr (text, lang)"
    by (simp add: process_language_def)
next
  fix translate lang e
  assume h: "translator = Some translate \<and> detect_language cp lower detect text = Inr lang
         \<and> translate text lang ''en'' = Inl e"
  then have "translate_step translator text lang = Inr text"
    by (simp add: translate_step_def try_except_def)
  with h show "process_language cp lower detect translator text = Inr (text, lang)"
    by (simp add: process_language_def)
qed

lemma marathi_detected:
  "detect_language (\<lambda>n::nat. n) (\<lambda>s. s) (\<lambda>s. Inl (Exception ''LangDetectException''))
     [2350, 2354, 2366] = Inr ''mr''"
  by code_simp

lemma digits_not_detected:
  "\<not> (''12'' \<noteq> [] \<and> list_ex (\<lambda>c. 2304 \<le> (of_char c :: nat) \<and> (of_char c :: nat) \<le> 2431) ''12'')"
  by code_simp

text \<open>
  Two runs: a Marathi clue word (code points of the Devanagari block) with a translator
  that raises, and two digits on which the detector raises.
\<close>

theorem process_language_total_witness:
  "process_language (\<lambda>n::nat. n) (\<lambda>s. s) (\<lambda>s. Inl (Exception ''LangDetectException''))
     (Some (\<lambda>text src dest. Inl (Exception ''timeout''))) [2350, 2354, 2366]
     = Inr ([2350, 2354, 2366], ''mr'')
   \<and> process_language of_char str_lower (\<lambda>s. Inl (Exception ''LangDetectException'')) None ''12''
     = Inr (''12'', ''unknown'')"
proof (rule conjI)
  note t = process_language_total [of "\<lambda>n::nat. n" "\<lambda>s. s"
      "\<lambda>s. Inl (Exception ''LangDetectException'')"
      "Some (\<lambda>text src dest. Inl (Exception ''timeout''))" "[2350, 2354, 2366]"]
  note raises = t [THEN conjunct2, THEN conjunct2, THEN conjunct2, THEN conjunct2, rule_format,
      of "\<lambda>text src dest. Inl (Exception ''timeout'')" "''mr''" "Exception ''timeout''"]
  show "process_language (\<lambda>n::nat. n) (\<lambda>s. s) (\<lambda>s. Inl (Exception ''LangDetectException''))
     (Some (\<lambda>text src dest. Inl (Exception ''timeout''))) [2350, 2354, 2366]
     = Inr ([2350, 2354, 2366], ''mr'')"
    by (rule raises) (simp add: marathi_detected)
next
  note t = process_language_total [of of_char str_lower
      "\<lambda>s. Inl (Exception ''LangDetectException'')" None "''12''"]
  note fails = t [THEN conjunct2, THEN conjunct2, THEN conjunct1, rule_format]
  show "process_language of_char str_lower (\<lambda>s. Inl (Exception ''LangDetectException'')) None
      ''12'' = Inr (''12'', ''unknown'')"
    by (rule fails) (use digits_not_detected in blast)
qed

section \<open>Facts about the scorers and the booster\<close>

lemma score_range: "0 \<le> score self t \<and> score self t \<le> 1"
  by (simp add: score_def Let_def)

lemma detect_sensationalism_range:
  "0 \<le> detect_sensationalism t \<and> detect_sensationalism t \<le> 1"
  by (simp add: detect_sensationalism_def Let_def)

text \<open>
  Claim C5: for every text, \<open>MisinformationDetector.score\<close> (with any set of terms) and
  \<open>detect_sensationalism\<close> return a value between 0 and 1, and both return 0 on the empty
  string.
\<close>

theorem scores_in_unit_interval:
  "0 \<le> score (MisinformationDetector ts) t \<and> score (MisinformationDetector ts) t \<le> 1
   \<and> 0 \<le> detect_sensationalism t \<and> detect_sensationalism t \<le> 1
   \<and> score (MisinformationDetector ts) '''' = 0 \<and> detect_sensationalism '''' = 0"
  using score_range [of "MisinformationDetector ts" t] detect_sensationalism_range [of t]
  by (simp add: score_def detect_sensationalism_def)

text \<open>
  Claim C6: the two scores \<open>analyze_text\<close> returns are at least the raw scores of the two
  scorers. With a crisis keyword in the lowercased text, the misinformation score becomes
  \<open>min(1, score + 0.50)\<close> exactly when it was below 0.70 and the sensationalism score
  becomes \<open>min(1, score + 0.20)\<close> exactly when it was below 0.20, and a score rises exactly
  in those cases; with no crisis keyword both scores are returned as they were.
\<close>

theorem analyze_text_boost:
  assumes "analyze_text t = (m', s', v)"
  shows "score (MisinformationDetector None) t \<le> m' \<and> detect_sensationalism t \<le> s'
    \<and> (if any_in crisis_keywords (str_lower t)
        then m' = (if score (MisinformationDetector None) t < 7 / 10
                   then min 1 (score (MisinformationDetector None) t + 5 / 10)
                   else score (MisinformationDetector None) t)
           \<and> s' = (if detect_sensationalism t < 2 / 10
                   then min 1 (detect_sensationalism t + 2 / 10)
                   else detect_sensationalism t)
           \<and> (score (MisinformationDetector None) t < m'
                \<longleftrightarrow> score (MisinformationDetector None) t < 7 / 10)
           \<and> (detect_sensationalism t < s' \<longleftrightarrow> detect_sensationalism t < 2 / 10)
        else m' = score (MisinformationDetector None) t \<and> s' = detect_sensationalism t)"
proof -
  define m where "m = score (MisinformationDetector None) t"
  define s where "s = detect_sensationalism t"
  have m: "0 \<le> m \<and> m \<le> 1"
    unfolding m_def by (rule score_range)
  have s: "0 \<le> s \<and> s \<le> 1"
    unfolding s_def by (rule detect_sensationalism_range)
  from assms
  have m': "m' = (if any_in crisis_keywords (str_lower t) \<and> m < 7 / 10
                  then min 1 (m + 5 / 10) else m)"
    and s': "s' = (if any_in crisis_keywords (str_lower t) \<and> s < 2 / 10
                  then min 1 (s + 2 / 10) else s)"
    by (auto simp: analyze_text_def Let_def m_def s_def)
  from m s show ?thesis
    unfolding m_def [symmetric] s_def [symmetric] m' s'
    by (auto simp: min_def)
qed

lemma analyze_lockdown: "analyze_text ''lockdown'' = (1 / 2, 1 / 5, ''Unclear'')"
  by code_simp

lemma lockdown_is_crisis: "any_in crisis_keywords (str_lower ''lockdown'')"
  by code_simp

theorem analyze_text_boost_witness:
  "analyze_text ''lockdown'' = (1 / 2, 1 / 5, ''Unclear'')
   \<and> any_in crisis_keywords (str_lower ''lockdown'')
   \<and> score (MisinformationDetector None) ''lockdown'' \<le> 1 / 2
   \<and> detect_sensationalism ''lockdown'' \<le> 1 / 5"
  using analyze_text_boost [OF analyze_lockdown] analyze_lockdown lockdown_is_crisis
  by (intro conjI) simp_all

lemma analyze_urgent:
  "analyze_text ''urgent alert the who has just confirmed that the new virus is spreading rapidly''
     = (121 / 140, 33 / 115, ''Fake'')"
  by code_simp

lemma plain_urgent: "generate_preliminary_prediction (121 / 140) (33 / 115) = ''Unclear''"
  by code_simp

text \<open>
  Claim C7: the preliminary verdict of \<open>analyze_text\<close> is "Fake" exactly when one of the
  boosted scores exceeds 0.80, "Real" exactly when both are below 0.20, and "Unclear"
  otherwise; \<open>generate_preliminary_prediction\<close> returns "Fake" exactly when the
  misinformation score exceeds 0.6 and the sensationalism score exceeds 0.3, and "Real"
  exactly when both are below 0.3. The two policies differ: on the sample of
  \<open>run_test_urgent.py\<close> the first gives "Fake" and the second, on the same boosted scores,
  "Unclear".
\<close>

theorem preliminary_verdict_policies:
  assumes "analyze_text t = (m', s', v)"
  shows "(v = ''Fake'' \<longleftrightarrow> m' > 8 / 10 \<or> s' > 8 / 10)
    \<and> (v = ''Real'' \<longleftrightarrow> m' < 2 / 10 \<and> s' < 2 / 10)
    \<and> (v = ''Unclear'' \<longleftrightarrow> \<not> (m' > 8 / 10 \<or> s' > 8 / 10) \<and> \<not> (m' < 2 / 10 \<and> s' < 2 / 10))
    \<and> (generate_preliminary_prediction a b = ''Fake'' \<longleftrightarrow> a > 6 / 10 \<and> b > 3 / 10)
    \<and> (generate_preliminary_prediction a b = ''Real'' \<longleftrightarrow> a < 3 / 10 \<and> b < 3 / 10)
    \<and> (generate_preliminary_prediction a b = ''Unclear''
         \<longleftrightarrow> \<not> (a > 6 / 10 \<and> b > 3 / 10) \<and> \<not> (a < 3 / 10 \<and> b < 3 / 10))
    \<and> snd (snd (analyze_text
         ''urgent alert the who has just confirmed that the new virus is spreading rapidly''))
       \<noteq> generate_preliminary_prediction (121 / 140) (33 / 115)"
proof -
  from assms have "v = (if m' > 8 / 10 \<or> s' > 8 / 10 then ''Fake''
             else if m' < 2 / 10 \<and> s' < 2 / 10 then ''Real'' else ''Unclear'')"
    by (auto simp: analyze_text_def Let_def)
  then have "(v = ''Fake'' \<longleftrightarrow> m' > 8 / 10 \<or> s' > 8 / 10)
    \<and> (v = ''Real'' \<longleftrightarrow> m' < 2 / 10 \<and> s' < 2 / 10)
    \<and> (v = ''Unclear'' \<longleftrightarrow> \<not> (m' > 8 / 10 \<or> s' > 8 / 10) \<and> \<not> (m' < 2 / 10 \<and> s' < 2 / 10))"
    by auto
  moreover have "(generate_preliminary_prediction a b = ''Fake'' \<longleftrightarrow> a > 6 / 10 \<and> b > 3 / 10)
    \<and> (generate_preliminary_prediction a b = ''Real'' \<longleftrightarrow> a < 3 / 10 \<and> b < 3 / 10)
    \<and> (generate_preliminary_prediction a b = ''Unclear''
         \<longleftrightarrow> \<not> (a > 6 / 10 \<and> b > 3 / 10) \<and> \<not> (a < 3 / 10 \<and> b < 3 / 10))"
    by (auto simp: generate_preliminary_prediction_def)
  moreover have "snd (snd (analyze_text
         ''urgent alert the who has just confirmed that the new virus is spreading rapidly''))
       \<noteq> generate_preliminary_prediction (121 / 140) (33 / 115)"
    by (simp add: analyze_urgent plain_urgent)
  ultimately show ?thesis
    by (intro conjI) (elim conjE, assumption)+
qed

theorem preliminary_verdict_policies_witness:
  "analyze_text ''lockdown'' = (1 / 2, 1 / 5, ''Unclear'')
   \<and> \<not> ((1 / 2 :: rat) > 8 / 10 \<or> (1 / 5 :: rat) > 8 / 10)
   \<and> \<not> ((1 / 2 :: rat) < 2 / 10 \<and> (1 / 5 :: rat) < 2 / 10)"
proof -
  note t = preliminary_verdict_policies [OF analyze_lockdown, of 0 0]
  from t have "(''Unclear'' = ''Unclear'')
      = (\<not> ((1 / 2 :: rat) > 8 / 10 \<or> (1 / 5 :: rat) > 8 / 10)
         \<and> \<not> ((1 / 2 :: rat) < 2 / 10 \<and> (1 / 5 :: rat) < 2 / 10))"
    by (elim conjE)
  with analyze_lockdown show ?thesis
    by (intro conjI) simp_all
qed

section \<open>Facts about text normalisation\<close>

lemma url_literals:
  "code_points ''https://'' = [104, 116, 116, 112, 115, 58, 47, 47]"
  "code_points ''http://'' = [104, 116, 116, 112, 58, 47, 47]"
  "code_points ''www.'' = [119, 119, 119, 46]"
  by (simp_all add: code_points_def)

lemma set_remove_urls: "set (remove_urls u s) \<subseteq> set s"
proof (induction u s rule: remove_urls.induct)
  case (1 u)
  show ?case by simp
next
  case (2 u c cs)
  show ?case
  proof (cases "url_start u (c # cs)")
    case True
    with 2 have "set (remove_urls u (c # cs)) \<subseteq> set (dropWhile (\<lambda>d. \<not> space u d) cs)"
      by simp
    also have "\<dots> \<subseteq> set (c # cs)"
      by (auto dest: set_dropWhileD)
    finally show ?thesis .
  next
    case False
    with 2 show ?thesis by auto
  qed
qed

lemma url_start_chars: "url_start u s \<Longrightarrow> 58 \<in> set s \<or> 46 \<in> set s"
  by (auto simp: url_start_def Let_def url_literals prefix_def)

lemma remove_urls_id: "58 \<notin> set s \<Longrightarrow> 46 \<notin> set s \<Longrightarrow> remove_urls u s = s"
proof (induction s)
  case Nil
  show ?case by simp
next
  case (Cons c cs)
  then have "\<not> url_start u (c # cs)"
    using url_start_chars [of u "c # cs"] by blast
  with Cons show ?case by simp
qed

lemma sigma_cases: "handle_capital_sigma u p f = 962 \<or> handle_capital_sigma u p f = 963"
  by (simp add: handle_capital_sigma_def Let_def)

lemma set_lower_from:
  "d \<in> set (lower_from u p s) \<Longrightarrow> d = 962 \<or> d = 963 \<or> (\<exists>c. d \<in> set (lower_full u c))"
proof (induction s arbitrary: p)
  case Nil
  then show ?case by simp
next
  case (Cons c cs)
  from Cons.prems
  have "d \<in> set (if c = 931 then [handle_capital_sigma u p cs] else lower_full u c)
        \<or> d \<in> set (lower_from u (c # p) cs)"
    by simp
  then show ?case
  proof
    assume h: "d \<in> set (if c = 931 then [handle_capital_sigma u p cs] else lower_full u c)"
    show ?thesis
    proof (cases "c = 931")
      case True
      with h have "d = handle_capital_sigma u p cs"
        by simp
      with sigma_cases [of u p cs] show ?thesis
        by blast
    next
      case False
      with h show ?thesis
        by auto
    qed
  next
    assume "d \<in> set (lower_from u (c # p) cs)"
    then show ?thesis
      by (rule Cons.IH)
  qed
qed

lemma lower_from_id:
  "\<forall>c\<in>set s. lower_full u c = [c] \<and> c \<noteq> 931 \<Longrightarrow> lower_from u p s = s"
  by (induction s arbitrary: p) simp_all

lemma dropWhile_cases:
  "dropWhile P cs = [] \<or> (\<exists>d ds. dropWhile P cs = d # ds \<and> \<not> P d)"
proof (cases "dropWhile P cs")
  case Nil
  then show ?thesis by simp
next
  case (Cons d ds)
  with hd_dropWhile [of P cs] show ?thesis by simp
qed

lemma single_spaced_other: "\<not> sp c \<Longrightarrow> single_spaced sp (c # ys) = single_spaced sp ys"
  by (cases ys) simp_all

lemma single_spaced_collapse: "single_spaced (space u) (collapse_ws u s)"
proof (induction u s rule: collapse_ws.induct)
  case (1 u)
  show ?case by simp
next
  case (2 u c cs)
  show ?case
  proof (cases "space u c")
    case True
    with 2 have ih: "single_spaced (space u) (collapse_ws u (dropWhile (space u) cs))"
      by simp
    from True
    have e: "collapse_ws u (c # cs) = 32 # collapse_ws u (dropWhile (space u) cs)"
      by simp
    from dropWhile_cases [of "space u" cs] show ?thesis
    proof
      assume n: "dropWhile (space u) cs = []"
      show ?thesis
        unfolding e n by simp
    next
      assume "\<exists>d ds. dropWhile (space u) cs = d # ds \<and> \<not> space u d"
      then obtain d ds where d: "dropWhile (space u) cs = d # ds" and nd: "\<not> space u d"
        by blast
      from ih nd show ?thesis
        unfolding e d by simp
    qed
  next
    case False
    with 2 show ?thesis by (simp add: single_spaced_other)
  qed
qed

lemma set_collapse: "set (collapse_ws u s) \<subseteq> {c \<in> set s. \<not> space u c} \<union> {32}"
proof (induction u s rule: collapse_ws.induct)
  case (1 u)
  show ?case by simp
next
  case (2 u c cs)
  show ?case
  proof (cases "space u c")
    case True
    with 2 have "set (collapse_ws u (dropWhile (space u) cs))
        \<subseteq> {c \<in> set (dropWhile (space u) cs). \<not> space u c} \<union> {32}"
      by simp
    also have "\<dots> \<subseteq> {c \<in> set cs. \<not> space u c} \<union> {32}"
      by (auto dest: set_dropWhileD)
    finally show ?thesis using True by auto
  next
    case False
    with 2 show ?thesis by auto
  qed
qed

lemma collapse_id: "single_spaced (space u) s \<Longrightarrow> collapse_ws u s = s"
proof (induction "space u" s rule: single_spaced.induct)
  case 1
  show ?case by simp
next
  case (2 c)
  then show ?case by (simp split: if_splits)
next
  case (3 c d cs)
  then show ?case by (simp split: if_splits)
qed

lemma single_spaced_tl: "single_spaced sp (c # cs) \<Longrightarrow> single_spaced sp cs"
  by (cases cs) (simp_all split: if_splits)

lemma single_spaced_dropWhile: "single_spaced sp s \<Longrightarrow> single_spaced sp (dropWhile P s)"
  by (induction s) (auto dest: single_spaced_tl)

lemma single_spaced_prefix: "single_spaced sp (xs @ ys) \<Longrightarrow> single_spaced sp xs"
proof (induction sp xs rule: single_spaced.induct)
  case (1 sp)
  show ?case by simp
next
  case (2 sp c)
  then show ?case by (cases ys) (simp_all split: if_splits)
next
  case (3 sp c d cs)
  then show ?case by (simp split: if_splits)
qed

lemma rstrip_prefix: "s = rev (dropWhile P (rev s)) @ rev (takeWhile P (rev s))"
proof -
  have "rev (dropWhile P (rev s)) @ rev (takeWhile P (rev s))
      = rev (takeWhile P (rev s) @ dropWhile P (rev s))"
    by (simp only: rev_append)
  also have "\<dots> = rev (rev s)"
    by (simp only: takeWhile_dropWhile_id)
  finally show ?thesis
    by simp
qed

lemma single_spaced_strip:
  assumes "single_spaced (space u) s"
  shows "single_spaced (space u) (str_strip u s)"
proof -
  from assms have a: "single_spaced (space u) (dropWhile (space u) s)"
    by (rule single_spaced_dropWhile)
  from rstrip_prefix [of "dropWhile (space u) s" "space u"] a
  have "single_spaced (space u)
          (str_strip u s @ rev (takeWhile (space u) (rev (dropWhile (space u) s))))"
    by (simp add: str_strip_def)
  then show ?thesis by (rule single_spaced_prefix)
qed

lemma set_strip: "set (str_strip u s) \<subseteq> set s"
  by (auto simp: str_strip_def dest!: set_dropWhileD)

lemma strip_fixed: "str_strip u (str_strip u s) = str_strip u s"
proof -
  define a where "a = dropWhile (space u) s"
  define v where "v = rev (dropWhile (space u) (rev a))"
  have v: "str_strip u s = v"
    by (simp add: str_strip_def v_def a_def)
  have a: "a = v @ rev (takeWhile (space u) (rev a))"
    unfolding v_def by (rule rstrip_prefix)
  have "v = [] \<or> \<not> space u (hd v)"
  proof (cases "v = []")
    case True
    then show ?thesis by simp
  next
    case False
    with a have "hd v = hd a" and "a \<noteq> []"
      by (metis hd_append2, metis append_is_Nil_conv)
    with hd_dropWhile [of "space u" s] show ?thesis
      by (simp add: a_def)
  qed
  then have "dropWhile (space u) v = v"
    by (simp add: dropWhile_eq_self_iff)
  then have "str_strip u v = rev (dropWhile (space u) (rev v))"
    by (simp add: str_strip_def)
  also have "\<dots> = v"
    by (simp add: v_def)
  finally show ?thesis
    by (simp add: v)
qed

text \<open>
  What the proof asks of the character database: a code point that \<open>str.lower\<close> produces
  is its own lower case and is not the capital sigma; so are the two small sigmas and the
  space; the space is whitespace; the full stop (46) and the colon (58) are not
  alphanumeric. These are properties of the interpreter's database; here they are
  hypotheses, and \<open>sample_ucd\<close> shows that a database can meet them.
\<close>

lemma lowered_stable:
  assumes "\<forall>c. \<forall>d\<in>set (lower_full u c). lower_full u d = [d] \<and> d \<noteq> 931"
    and "lower_full u 962 = [962]" and "lower_full u 963 = [963]"
    and "d \<in> set (unicode_lower u t)"
  shows "lower_full u d = [d] \<and> d \<noteq> 931"
proof -
  from assms(4) have "d = 962 \<or> d = 963 \<or> (\<exists>c. d \<in> set (lower_full u c))"
    unfolding unicode_lower_def by (rule set_lower_from)
  then show ?thesis
  proof (elim disjE exE)
    assume "d = 962"
    with assms(2) show ?thesis by simp
  next
    assume "d = 963"
    with assms(3) show ?thesis by simp
  next
    fix c
    assume "d \<in> set (lower_full u c)"
    with assms(1) show ?thesis by blast
  qed
qed

lemma normal_chars:
  assumes "\<forall>c. \<forall>d\<in>set (lower_full u c). lower_full u d = [d] \<and> d \<noteq> 931"
    and "lower_full u 962 = [962]" and "lower_full u 963 = [963]"
    and "c \<in> set (map (\<lambda>c. if c = 95 then 32 else c)
                    (filter (\<lambda>c. (alnum u c \<or> c = 95) \<or> space u c)
                       (remove_urls u (unicode_lower u t))))"
  shows "c = 32 \<or> space u c \<or> (alnum u c \<and> c \<noteq> 95 \<and> lower_full u c = [c] \<and> c \<noteq> 931)"
proof -
  from assms(4) obtain d where d: "d \<in> set (remove_urls u (unicode_lower u t))"
    and k: "(alnum u d \<or> d = 95) \<or> space u d"
    and c: "c = (if d = 95 then 32 else d)"
    by auto
  from d set_remove_urls have "d \<in> set (unicode_lower u t)"
    by blast
  with assms(1,2,3) have "lower_full u d = [d] \<and> d \<noteq> 931"
    by (rule lowered_stable)
  with k c show ?thesis
    by (cases "d = 95") auto
qed

lemma normal_code_point_facts:
  assumes "lower_full u 32 = [32]" and "space u 32"
    and "\<not> alnum u 46" and "\<not> alnum u 58"
    and "c = 32 \<or> (alnum u c \<and> c \<noteq> 95 \<and> lower_full u c = [c] \<and> c \<noteq> 931)"
  shows "lower_full u c = [c] \<and> c \<noteq> 931" and "c \<noteq> 58" and "c \<noteq> 46"
    and "(alnum u c \<or> c = 95) \<or> space u c" and "(if c = 95 then 32 else c) = c"
proof -
  from assms(5) show "lower_full u c = [c] \<and> c \<noteq> 931"
  proof
    assume "c = 32"
    with assms(1) show ?thesis by simp
  next
    assume "alnum u c \<and> c \<noteq> 95 \<and> lower_full u c = [c] \<and> c \<noteq> 931"
    then show ?thesis by blast
  qed
  from assms(5) assms(4) show "c \<noteq> 58"
    by auto
  from assms(5) assms(3) show "c \<noteq> 46"
    by auto
  from assms(5) assms(2) show "(alnum u c \<or> c = 95) \<or> space u c"
    by blast
  from assms(5) have "c \<noteq> 95"
    by auto
  then show "(if c = 95 then 32 else c) = c"
    by (simp only: if_False)
qed

lemma steps_id:
  assumes "lower_full u 32 = [32]" and "space u 32"
    and "\<not> alnum u 46" and "\<not> alnum u 58"
    and "\<forall>c\<in>set s. c = 32 \<or> (alnum u c \<and> c \<noteq> 95 \<and> lower_full u c = [c] \<and> c \<noteq> 931)"
  shows "map (\<lambda>c. if c = 95 then 32 else c)
           (filter (\<lambda>c. (alnum u c \<or> c = 95) \<or> space u c)
              (remove_urls u (unicode_lower u s))) = s"
proof -
  have n: "c = 32 \<or> (alnum u c \<and> c \<noteq> 95 \<and> lower_full u c = [c] \<and> c \<noteq> 931)"
    if "c \<in> set s" for c
    using assms(5) that by blast
  note facts = normal_code_point_facts [OF assms(1,2,3,4) n]
  have "\<forall>c\<in>set s. lower_full u c = [c] \<and> c \<noteq> 931"
    using facts(1) by blast
  then have l: "unicode_lower u s = s"
    unfolding unicode_lower_def by (rule lower_from_id)
  have "58 \<notin> set s" and "46 \<notin> set s"
    using facts(2,3) by blast+
  then have r: "remove_urls u s = s"
    by (rule remove_urls_id)
  have f: "filter (\<lambda>c. (alnum u c \<or> c = 95) \<or> space u c) s = s"
  proof (rule filter_True)
    show "\<forall>c\<in>set s. (alnum u c \<or> c = 95) \<or> space u c"
      using facts(4) by blast
  qed
  have m: "map (\<lambda>c. if c = 95 then 32 else c) s = s"
  proof (rule map_idI)
    fix c
    assume "c \<in> set s"
    then show "(if c = 95 then 32 else c) = c"
      by (rule facts(5))
  qed
  show ?thesis
    by (simp only: l r f m)
qed

text \<open>
  Claim C3: \<open>clean_text\<close> is idempotent on every string of code points, and it returns the
  empty string on \<open>None\<close> and on the empty string. The character database is any one in
  which lower-cased code points are stable, the space is whitespace and is its own lower
  case, and the full stop and the colon are not alphanumeric.
\<close>

theorem clean_text_idempotent:
  assumes "\<forall>c. \<forall>d\<in>set (lower_full u c). lower_full u d = [d] \<and> d \<noteq> 931"
    and "lower_full u 962 = [962]" and "lower_full u 963 = [963]"
    and "lower_full u 32 = [32]" and "space u 32"
    and "\<not> alnum u 46" and "\<not> alnum u 58"
  shows "clean_text u (Some (clean_text u input_text)) = clean_text u input_text
   \<and> clean_text u None = [] \<and> clean_text u (Some []) = []"
proof (intro conjI)
  show "clean_text u None = []" and "clean_text u (Some []) = []"
    by (simp_all add: clean_text_def)
  show "clean_text u (Some (clean_text u input_text)) = clean_text u input_text"
  proof (cases "clean_text u input_text = []")
    case True
    then show ?thesis by (simp add: clean_text_def)
  next
    case False
    then obtain t where t: "input_text = Some t" "t \<noteq> []"
      by (cases input_text) (auto simp: clean_text_def split: if_splits)
    define w where "w = map (\<lambda>c. if c = 95 then 32 else c)
                          (filter (\<lambda>c. (alnum u c \<or> c = 95) \<or> space u c)
                             (remove_urls u (unicode_lower u t)))"
    define out where "out = str_strip u (collapse_ws u w)"
    from t have o: "clean_text u input_text = out"
      by (simp add: clean_text_def out_def w_def)
    have chars: "\<forall>c\<in>set out.
        c = 32 \<or> (alnum u c \<and> c \<noteq> 95 \<and> lower_full u c = [c] \<and> c \<noteq> 931)"
    proof
      fix c
      assume "c \<in> set out"
      with set_strip have "c \<in> set (collapse_ws u w)"
        unfolding out_def by blast
      with set_collapse have "c = 32 \<or> (c \<in> set w \<and> \<not> space u c)"
        by blast
      with normal_chars [OF assms(1,2,3), of c t]
      show "c = 32 \<or> (alnum u c \<and> c \<noteq> 95 \<and> lower_full u c = [c] \<and> c \<noteq> 931)"
        unfolding w_def by blast
    qed
    have ss: "single_spaced (space u) out"
      unfolding out_def by (intro single_spaced_strip single_spaced_collapse)
    from False o have "out \<noteq> []"
      by simp
    then have "clean_text u (Some out)
        = str_strip u (collapse_ws u (map (\<lambda>c. if c = 95 then 32 else c)
            (filter (\<lambda>c. (alnum u c \<or> c = 95) \<or> space u c)
               (remove_urls u (unicode_lower u out)))))"
      by (simp add: clean_text_def)
    also have "\<dots> = str_strip u (collapse_ws u out)"
      by (simp only: steps_id [OF assms(4,5,6,7) chars])
    also have "\<dots> = str_strip u out"
      by (simp only: collapse_id [OF ss])
    also have "\<dots> = out"
      unfolding out_def by (rule strip_fixed)
    finally show ?thesis
      by (simp only: o)
  qed
qed

lemma sample_lower_stable:
  "\<forall>c. \<forall>d\<in>set (lower_full sample_ucd c). lower_full sample_ucd d = [d] \<and> d \<noteq> 931"
  by (auto simp: sample_ucd_def split: if_splits)

lemma sample_rows:
  "lower_full sample_ucd 962 = [962]" "lower_full sample_ucd 963 = [963]"
  "lower_full sample_ucd 32 = [32]" "space sample_ucd 32"
  "\<not> alnum sample_ucd 46" "\<not> alnum sample_ucd 58"
  by (simp_all add: sample_ucd_def)

lemma marathi_clean: "clean_text sample_ucd (Some [2310, 2361, 2375]) = [2310, 2361]"
  by (simp add: clean_text_def unicode_lower_def url_start_def url_literals str_strip_def
      sample_ucd_def Let_def)

lemma sample_clean:
  "clean_text sample_ucd (Some sample_text)
     = [105, 115, 32, 959, 962, 32, 97, 32, 98, 32, 2310, 2361]"
  by (simp add: clean_text_def unicode_lower_def url_start_def url_literals str_strip_def
      handle_capital_sigma_def sample_text_def code_points_def sample_ucd_def Let_def)

text \<open>
  The sample text holds a capital I with dot (two code points once lowered), a capital
  sigma in final position, a URL, underscores and a Devanagari word whose vowel sign is
  removed as punctuation; the sample database meets the seven conditions.
\<close>

theorem clean_text_idempotent_witness:
  "clean_text sample_ucd (Some sample_text)
     = [105, 115, 32, 959, 962, 32, 97, 32, 98, 32, 2310, 2361]
   \<and> clean_text sample_ucd (Some [2310, 2361, 2375]) = [2310, 2361]
   \<and> clean_text sample_ucd (Some (clean_text sample_ucd (Some sample_text)))
     = clean_text sample_ucd (Some sample_text)"
proof -
  note t = clean_text_idempotent [OF sample_lower_stable sample_rows,
      of "Some sample_text", THEN conjunct1]
  from sample_clean marathi_clean t show ?thesis
    by (intro conjI)
qed

section \<open>Facts about the token guard\<close>

lemma guard_urgent_twice:
  "guard_phase ''URGENT URGENT''
     = ([(''__TK9_0__'', ''URGENT''), (''__TK9_1__'', ''__ URG'')], ''__TK9_0__TK9_1__ENT'')"
  by code_simp

lemma restore_urgent_twice:
  "restore_phase [(''__TK9_0__'', ''URGENT''), (''__TK9_1__'', ''__ URG'')] ''__TK9_0__TK9_1__ENT''
     = ''URGENTTK9_1__ENT''"
  by code_simp

text \<open>
  Claim C2 says that guarding followed by restoration gives the input back, also when a
  phrase occurs more than once. The inner loop of the guard replaces the occurrences of one
  phrase at the offsets found before the first replacement, although each replacement
  changes the length of the text. On "URGENT URGENT" the second offset pair (7, 13) cuts
  into the first placeholder: the text sent to translation holds no intact first key, and
  restoration returns "URGENTTK9_1__ENT".
\<close>

theorem repeated_phrase_not_restored:
  "guard_phase ''URGENT URGENT''
     = ([(''__TK9_0__'', ''URGENT''), (''__TK9_1__'', ''__ URG'')], ''__TK9_0__TK9_1__ENT'')
   \<and> restore_phase (fst (guard_phase ''URGENT URGENT'')) (snd (guard_phase ''URGENT URGENT''))
     = ''URGENTTK9_1__ENT''
   \<and> restore_phase (fst (guard_phase ''URGENT URGENT'')) (snd (guard_phase ''URGENT URGENT''))
     \<noteq> ''URGENT URGENT''"
  by (simp add: guard_urgent_twice restore_urgent_twice)

end
